theory Spec2Isabelle
  imports Complex_Main
begin

section \<open>JavaScript numbers\<close>

text \<open>
  The module \<^verbatim>\<open>simscript/util.ts\<close> computes with JavaScript numbers. A number is
  modelled as an exact real or the value \<^verbatim>\<open>NaN\<close>: the rounding of IEEE doubles, the
  infinities and the negative zero are outside this model. \<^verbatim>\<open>NaN\<close> is kept because the
  code depends on it: \<^verbatim>\<open>0 - undefined\<close> is \<^verbatim>\<open>NaN\<close>, which the operator
  \<^verbatim>\<open>||\<close> treats as false. A value of type \<^verbatim>\<open>number | undefined\<close> (an optional
  field) or \<^verbatim>\<open>number | null\<close> is a \<open>number option\<close>, with \<open>None\<close> for the
  missing value.

  The claims on \<^verbatim>\<open>Point.interpolate\<close> are equalities between results, which the
  rounding decides; that function is modelled in double precision, on the type
  \<open>double\<close> of the section on double precision.
\<close>

datatype number = Num real | NaN

fun num_add :: "number \<Rightarrow> number \<Rightarrow> number" where
  "num_add (Num a) (Num b) = Num (a + b)"
| "num_add _ _ = NaN"

fun num_sub :: "number \<Rightarrow> number \<Rightarrow> number" where
  "num_sub (Num a) (Num b) = Num (a - b)"
| "num_sub _ _ = NaN"

fun num_mul :: "number \<Rightarrow> number \<Rightarrow> number" where
  "num_mul (Num a) (Num b) = Num (a * b)"
| "num_mul _ _ = NaN"


text \<open>The comparisons \<^verbatim>\<open><\<close> and \<^verbatim>\<open>></\<close> are false as soon as one side is \<^verbatim>\<open>NaN\<close>.\<close>

fun num_lt :: "number \<Rightarrow> number \<Rightarrow> bool" where
  "num_lt (Num a) (Num b) = (a < b)"
| "num_lt _ _ = False"

fun num_gt :: "number \<Rightarrow> number \<Rightarrow> bool" where
  "num_gt (Num a) (Num b) = (a > b)"
| "num_gt _ _ = False"

text \<open>\<^verbatim>\<open>ToNumber\<close> of an optional number: \<^verbatim>\<open>undefined\<close> becomes \<^verbatim>\<open>NaN\<close>.\<close>

fun to_number :: "number option \<Rightarrow> number" where
  "to_number None = NaN"
| "to_number (Some n) = n"

text \<open>\<^verbatim>\<open>ToBoolean\<close>: \<^verbatim>\<open>undefined\<close>, \<^verbatim>\<open>NaN\<close> and zero are false.\<close>

fun truthy :: "number option \<Rightarrow> bool" where
  "truthy None = False"
| "truthy (Some NaN) = False"
| "truthy (Some (Num a)) = (a \<noteq> 0)"

text \<open>\<^verbatim>\<open>a || b\<close> is \<^verbatim>\<open>a\<close> when \<^verbatim>\<open>a\<close> is true, and \<^verbatim>\<open>b\<close> otherwise.\<close>

definition js_or :: "number option \<Rightarrow> number option \<Rightarrow> number option" where
  "js_or a b = (if truthy a then a else b)"

subsection \<open>The functions of \<^verbatim>\<open>Math\<close> that the module calls\<close>


fun Math_sqrt :: "number \<Rightarrow> number" where
  "Math_sqrt (Num a) = (if a < 0 then NaN else Num (sqrt a))"
| "Math_sqrt NaN = NaN"




section \<open>\<^verbatim>\<open>clamp\<close>\<close>

text \<open>
  \<^verbatim>\<open>
  export function clamp(value: number, min: number | null, max: number | null): number {
      return (min != null && value < min) ? min
          : (max != null && value > max) ? max
          : value;
  }
  \<close>
  \<open>None\<close> is \<^verbatim>\<open>null\<close>.
\<close>

definition clamp :: "number \<Rightarrow> number option \<Rightarrow> number option \<Rightarrow> number" where
  "clamp v mn mx =
     (case mn of
        Some lo \<Rightarrow>
          if num_lt v lo then lo
          else (case mx of Some hi \<Rightarrow> if num_gt v hi then hi else v | None \<Rightarrow> v)
      | None \<Rightarrow> (case mx of Some hi \<Rightarrow> if num_gt v hi then hi else v | None \<Rightarrow> v))"

section \<open>Double precision\<close>

text \<open>
  A double is a real number that the format binary64 of IEEE 754 represents, an
  infinity, or \<^verbatim>\<open>NaN\<close>. The sign of zero is not modelled: \<^verbatim>\<open>===\<close> does not
  tell the two zeros apart.
\<close>

datatype double = Dbl real | DInfinity | DNegInfinity | DNaN

text \<open>Rounding to the nearest integer, a tie to the even one.\<close>

definition round_half_even :: "real \<Rightarrow> int" where
  "round_half_even q =
     (let n = \<lfloor>q\<rfloor>; f = q - of_int n
      in if f < 1 / 2 then n
         else if 1 / 2 < f then n + 1
         else if even n then n else n + 1)"

text \<open>
  The distance between neighbouring doubles of exponent \<open>e\<close>, whose significand has 53
  bits.
\<close>

definition ulp :: "int \<Rightarrow> real" where
  "ulp e = (if 52 \<le> e then 2 ^ nat (e - 52) else 1 / 2 ^ nat (52 - e))"

text \<open>
  The result of an arithmetic operation is its exact value rounded to the nearest
  double, a tie to the double of even significand. The exponent of a normal double is at
  least \<open>-1022\<close>; below, the doubles are subnormal and keep the spacing of that exponent.
  A value that rounds to \<open>2\<^sup>1\<^sup>0\<^sup>2\<^sup>4\<close> or beyond overflows to an infinity.
\<close>

definition round_double :: "real \<Rightarrow> double" where
  "round_double r =
     (if r = 0 then Dbl 0
      else
        (let e = max \<lfloor>log 2 \<bar>r\<bar>\<rfloor> (- 1022);
             v = of_int (round_half_even (r / ulp e)) * ulp e
         in if 2 ^ 1024 \<le> \<bar>v\<bar> then (if 0 < r then DInfinity else DNegInfinity)
            else Dbl v))"

text \<open>The reals that are doubles: those that rounding leaves as they are.\<close>

definition is_double :: "real \<Rightarrow> bool" where
  "is_double r \<longleftrightarrow> round_double r = Dbl r"








section \<open>Points\<close>

text \<open>
  \<^verbatim>\<open>
  export interface IPoint { x: number; y: number; z?: number; }
  \<close>
  The type \<open>'n\<close> of the coordinates is \<open>number\<close> for \<^verbatim>\<open>distance\<close> and
  \<^verbatim>\<open>angle\<close>, and \<open>double\<close> for \<^verbatim>\<open>interpolate\<close>.
\<close>

record 'n IPoint =
  x :: 'n
  y :: 'n
  z :: "'n option"


text \<open>
  \<^verbatim>\<open>
  static distance(p1: IPoint, p2: IPoint): number {
      const dx = p1.x - p2.x;
      const dy = p1.y - p2.y;
      const dz = p1.z || 0 - p2.z || 0;
      return Math.sqrt(dx * dx + dy * dy + dz * dz);
  }
  \<close>
  The subtraction binds tighter than \<^verbatim>\<open>||\<close>, which associates to the left, so
  \<^verbatim>\<open>dz\<close> is \<^verbatim>\<open>(p1.z || (0 - p2.z)) || 0\<close>.
\<close>

definition distance :: "number IPoint \<Rightarrow> number IPoint \<Rightarrow> number" where
  "distance p1 p2 =
     (let dx = num_sub (x p1) (x p2);
          dy = num_sub (y p1) (y p2);
          dz = to_number
                 (js_or (js_or (z p1) (Some (num_sub (Num 0) (to_number (z p2)))))
                        (Some (Num 0)))
      in Math_sqrt (num_add (num_add (num_mul dx dx) (num_mul dy dy)) (num_mul dz dz)))"

text \<open>
  The distance as the specification words it, with the difference
  \<^verbatim>\<open>(p1.z || 0) - (p2.z || 0)\<close> in the third coordinate.
\<close>

definition euclidean_distance :: "number IPoint \<Rightarrow> number IPoint \<Rightarrow> number" where
  "euclidean_distance p1 p2 =
     (let dx = num_sub (x p1) (x p2);
          dy = num_sub (y p1) (y p2);
          dz = num_sub (to_number (js_or (z p1) (Some (Num 0))))
                       (to_number (js_or (z p2) (Some (Num 0))))
      in Math_sqrt (num_add (num_add (num_mul dx dx) (num_mul dy dy)) (num_mul dz dz)))"



section \<open>Values, exceptions and the console\<close>

text \<open>
  The values that reach the dynamically typed functions of the module. An object is
  known by its address; \<open>VEvent\<close> is an instance of the class \<^verbatim>\<open>Event\<close> and
  \<open>VElement\<close> an instance of the DOM's \<^verbatim>\<open>Element\<close>. Symbols and objects whose
  conversion to a string runs code of their own are outside this model.
\<close>

datatype jsval =
    VUndefined
  | VNull
  | VBoolean bool
  | VNumber number
  | VString string
  | VFunction nat
  | VEvent nat
  | VElement nat
  | VObject nat

text \<open>
  What a call can throw: the string that \<^verbatim>\<open>assert\<close> throws, the \<^verbatim>\<open>SyntaxError\<close> of
  \<^verbatim>\<open>document.querySelector\<close> on a selector that does not parse, the
  \<^verbatim>\<open>RangeError\<close> of \<^verbatim>\<open>Intl.NumberFormat\<close> on options it refuses, and the
  \<^verbatim>\<open>TypeError\<close> of an assignment to a member that cannot be assigned.
\<close>

datatype exn = Thrown string | SyntaxError | RangeError | TypeError

text \<open>The error channel: the messages given to \<^verbatim>\<open>console.error\<close>, oldest first.\<close>

type_synonym console = "string list"

section \<open>\<^verbatim>\<open>assert\<close>\<close>

text \<open>
  \<^verbatim>\<open>
  export function assert(condition: boolean, msg: string) {
      if (!condition) {
          console.error(msg);
          throw msg;
      }
  }
  \<close>
\<close>

definition assert :: "bool \<Rightarrow> string \<Rightarrow> console \<Rightarrow> (exn + unit) \<times> console" where
  "assert condition msg con =
     (if \<not> condition then (Inl (Thrown msg), con @ [msg]) else (Inr (), con))"

section \<open>\<^verbatim>\<open>getElement\<close>\<close>

text \<open>
  The document, as far as \<^verbatim>\<open>querySelector\<close> reads it: its elements in tree order,
  which selectors parse, and which elements a selector matches. \<^verbatim>\<open>querySelector\<close>
  throws on a selector that does not parse, and returns the first element in tree
  order that matches, or \<^verbatim>\<open>null\<close>.
\<close>

record document =
  elements :: "nat list"
  parses :: "string \<Rightarrow> bool"
  matches :: "string \<Rightarrow> nat \<Rightarrow> bool"

definition querySelector :: "document \<Rightarrow> string \<Rightarrow> exn + jsval" where
  "querySelector doc sel =
     (if \<not> parses doc sel then Inl SyntaxError
      else (case find (matches doc sel) (elements doc) of
              None \<Rightarrow> Inr VNull
            | Some e \<Rightarrow> Inr (VElement e)))"

fun instanceof_Element :: "jsval \<Rightarrow> bool" where
  "instanceof_Element (VElement _) = True"
| "instanceof_Element _ = False"

text \<open>
  \<^verbatim>\<open>ToString\<close>, for the message. A string is itself; how the runtime prints any other
  value is the parameter \<open>display\<close>.
\<close>

fun ToString :: "(jsval \<Rightarrow> string) \<Rightarrow> jsval \<Rightarrow> string" where
  "ToString display (VString s) = s"
| "ToString display v = display v"

text \<open>
  \<^verbatim>\<open>
  export function getElement(selector: any): Element {
      let e = typeof selector === 'string'
          ? document.querySelector(selector)
          : selector;
      assert(e instanceof Element, 'Element not found:' + selector);
      return e;
  }
  \<close>
\<close>

definition getElement ::
  "document \<Rightarrow> (jsval \<Rightarrow> string) \<Rightarrow> jsval \<Rightarrow> console \<Rightarrow> (exn + jsval) \<times> console" where
  "getElement doc display selector con =
     (case (case selector of VString s \<Rightarrow> querySelector doc s | _ \<Rightarrow> Inr selector) of
        Inl err \<Rightarrow> (Inl err, con)
      | Inr e \<Rightarrow>
          (case assert (instanceof_Element e)
                  (''Element not found:'' @ ToString display selector) con of
             (Inl err, con') \<Rightarrow> (Inl err, con')
           | (Inr _, con') \<Rightarrow> (Inr e, con')))"

section \<open>\<^verbatim>\<open>setOptions\<close>\<close>

text \<open>
  The state that \<^verbatim>\<open>setOptions\<close> works on: the members of the target object
  \<^verbatim>\<open>obj\<close> (own and inherited, what \<^verbatim>\<open>key in obj\<close> sees), the members that cannot be
  assigned, the handlers of every \<^verbatim>\<open>Event\<close> instance by address, and the console.

  A member cannot be assigned when it is a data property that is not writable, an
  accessor without a setter, or an inherited member of an object that is not
  extensible; every member of a frozen object is one. The module is an ECMAScript
  module, so its code is strict and the assignment to such a member throws a
  \<^verbatim>\<open>TypeError\<close>. Accessors that run code of their own are outside this model.
\<close>

record world =
  obj :: "string \<rightharpoonup> jsval"
  readonly :: "string set"
  events :: "nat \<Rightarrow> jsval list"
  console :: console

text \<open>
  Modelled from the spec: the class \<^verbatim>\<open>Event\<close> of \<^verbatim>\<open>./event\<close> and its method
  \<^verbatim>\<open>addEventListener\<close> are not among the source files. The specification has the
  method register the supplied callback as a handler on the event; here it is added
  after the handlers the event already has.
\<close>

definition addEventListener :: "nat \<Rightarrow> jsval \<Rightarrow> (nat \<Rightarrow> jsval list) \<Rightarrow> (nat \<Rightarrow> jsval list)" where
  "addEventListener ev handler evs = evs(ev := evs ev @ [handler])"

fun instanceof_Event :: "jsval \<Rightarrow> bool" where
  "instanceof_Event (VEvent _) = True"
| "instanceof_Event _ = False"

text \<open>
  The argument \<^verbatim>\<open>options\<close>: \<^verbatim>\<open>null\<close>, \<^verbatim>\<open>undefined\<close>, or an object, given by its
  enumerable properties in the order in which \<^verbatim>\<open>for (let key in options)\<close> visits
  them.
\<close>

datatype options = OptNull | OptUndefined | OptObject "(string \<times> jsval) list"

text \<open>
  \<^verbatim>\<open>
  export function setOptions(obj: any, options: any) {
      if (options) {
          for (let key in options) {
              assert(key in obj, `Property ${key} is not defined`);
              if (obj[key] instanceof Event) { // add event handler
                  (obj[key] as Event).addEventListener(options[key]);
              } else {
                  obj[key] = options[key]; // property assignment
              }
          }
      }
  }
  \<close>
  One round of the loop is \<open>setOption\<close>; the loop stops at the first round that throws.
\<close>

definition setOption :: "string \<Rightarrow> jsval \<Rightarrow> world \<Rightarrow> (exn + unit) \<times> world" where
  "setOption key v w =
     (case assert (obj w key \<noteq> None) (''Property '' @ key @ '' is not defined'') (console w) of
        (Inl err, con) \<Rightarrow> (Inl err, w\<lparr>console := con\<rparr>)
      | (Inr _, con) \<Rightarrow>
          (case obj w key of
             Some (VEvent ev) \<Rightarrow>
               (Inr (), w\<lparr>events := addEventListener ev v (events w), console := con\<rparr>)
           | _ \<Rightarrow>
               if key \<in> readonly w then (Inl TypeError, w\<lparr>console := con\<rparr>)
               else (Inr (), w\<lparr>obj := (obj w)(key \<mapsto> v), console := con\<rparr>)))"

text \<open>
  The keys for which a round of the loop returns: the members of \<^verbatim>\<open>obj\<close> that are an
  \<^verbatim>\<open>Event\<close> or can be assigned.
\<close>

definition settable :: "world \<Rightarrow> string \<Rightarrow> bool" where
  "settable w key \<longleftrightarrow>
     obj w key \<noteq> None \<and> (key \<in> readonly w \<longrightarrow> instanceof_Event (the (obj w key)))"

fun setOptions_loop :: "(string \<times> jsval) list \<Rightarrow> world \<Rightarrow> (exn + unit) \<times> world" where
  "setOptions_loop [] w = (Inr (), w)"
| "setOptions_loop ((key, v) # rest) w =
     (case setOption key v w of
        (Inl err, w') \<Rightarrow> (Inl err, w')
      | (Inr _, w') \<Rightarrow> setOptions_loop rest w')"

definition setOptions :: "world \<Rightarrow> options \<Rightarrow> (exn + unit) \<times> world" where
  "setOptions w opts =
     (case opts of
        OptObject kvs \<Rightarrow> setOptions_loop kvs w
      | _ \<Rightarrow> (Inr (), w))"

section \<open>\<^verbatim>\<open>format\<close>\<close>






















section \<open>Properties of the geometry of points\<close>

text \<open>
  Claim C1 says that \<^verbatim>\<open>Point.distance\<close> is the Euclidean distance, with
  \<^verbatim>\<open>(p1.z || 0) - (p2.z || 0)\<close> as the difference of the third coordinates. The code
  does not compute it: for the point \<^verbatim>\<open>{x: 0, y: 0, z: 1}\<close> and itself,
  \<^verbatim>\<open>dz\<close> is \<^verbatim>\<open>(1 || (0 - 1)) || 0\<close>, that is 1, so the code returns 1, where the
  Euclidean distance of a point to itself is 0.
\<close>

theorem distance_same_point_is_one:
  "distance \<lparr>x = Num 0, y = Num 0, z = Some (Num 1)\<rparr> \<lparr>x = Num 0, y = Num 0, z = Some (Num 1)\<rparr> = Num 1
   \<and> euclidean_distance \<lparr>x = Num 0, y = Num 0, z = Some (Num 1)\<rparr>
        \<lparr>x = Num 0, y = Num 0, z = Some (Num 1)\<rparr> = Num 0"
  by (simp add: distance_def euclidean_distance_def js_or_def)

subsection \<open>Rounding to a double\<close>





lemma round_double_zero: "round_double 0 = Dbl 0"
  by (simp add: round_double_def)

lemma is_double_zero: "is_double 0"
  by (simp add: is_double_def round_double_zero)




subsection \<open>\<^verbatim>\<open>Point.interpolate\<close>\<close>




subsection \<open>\<^verbatim>\<open>Point.angle\<close>\<close>





section \<open>Properties of \<^verbatim>\<open>clamp\<close>\<close>

text \<open>
  Claim C4. \<^verbatim>\<open>clamp(value, min, max)\<close> is \<^verbatim>\<open>min\<close> when \<^verbatim>\<open>min\<close> is not
  \<^verbatim>\<open>null\<close> and \<^verbatim>\<open>value < min\<close>; otherwise \<^verbatim>\<open>max\<close> when \<^verbatim>\<open>max\<close> is not
  \<^verbatim>\<open>null\<close> and \<^verbatim>\<open>value > max\<close>; otherwise \<^verbatim>\<open>value\<close>. So
  \<^verbatim>\<open>clamp(5, 0, 10)\<close> is 5, \<^verbatim>\<open>clamp(-5, 0, 10)\<close> is 0, \<^verbatim>\<open>clamp(15, null, 10)\<close> is
  10 and \<^verbatim>\<open>clamp(5, null, null)\<close> is 5.
\<close>

theorem clamp_cases:
  "clamp v mn mx =
     (if mn \<noteq> None \<and> num_lt v (the mn) then the mn
      else if mx \<noteq> None \<and> num_gt v (the mx) then the mx
      else v)
   \<and> clamp (Num 5) (Some (Num 0)) (Some (Num 10)) = Num 5
   \<and> clamp (Num (- 5)) (Some (Num 0)) (Some (Num 10)) = Num 0
   \<and> clamp (Num 15) None (Some (Num 10)) = Num 10
   \<and> clamp (Num 5) None None = Num 5"
  by (simp add: clamp_def split: option.splits)

section \<open>Properties of \<^verbatim>\<open>assert\<close>\<close>

text \<open>
  Claim C7. \<^verbatim>\<open>assert(condition, message)\<close> throws exactly when \<^verbatim>\<open>condition\<close> is
  false, and then the message has been written to the console before the throw
  reaches the caller; when \<^verbatim>\<open>condition\<close> is true it returns and the console is as it
  was.
\<close>

theorem assert_throws_iff:
  "(isl (fst (assert c msg con)) \<longleftrightarrow> \<not> c)
   \<and> (\<not> c \<longrightarrow> assert c msg con = (Inl (Thrown msg), con @ [msg]))
   \<and> (c \<longrightarrow> assert c msg con = (Inr (), con))"
  by (simp add: assert_def)

theorem assert_throws_iff_witness:
  "assert False ''bad'' [''old''] = (Inl (Thrown ''bad''), [''old'', ''bad''])
   \<and> assert True ''bad'' [''old''] = (Inr (), [''old''])"
  using assert_throws_iff [of False "''bad''" "[''old'']"]
        assert_throws_iff [of True "''bad''" "[''old'']"]
  by simp

section \<open>Properties of \<^verbatim>\<open>getElement\<close>\<close>

text \<open>
  Claim C8. For a string that parses as a selector, \<^verbatim>\<open>getElement\<close> returns the first
  element of the document that matches it, and throws through \<^verbatim>\<open>assert\<close> when no
  element matches. Any other argument is returned as it is when it is an
  \<^verbatim>\<open>Element\<close>, and makes \<^verbatim>\<open>assert\<close> throw when it is not. Whatever
  \<^verbatim>\<open>getElement\<close> returns is an \<^verbatim>\<open>Element\<close>.
\<close>

theorem getElement_resolves:
  "(parses doc s \<and> i < length (elements doc) \<and> matches doc s (elements doc ! i)
      \<and> (\<forall>j<i. \<not> matches doc s (elements doc ! j)) \<longrightarrow>
      getElement doc display (VString s) con = (Inr (VElement (elements doc ! i)), con))
   \<and> (parses doc s \<and> (\<forall>e \<in> set (elements doc). \<not> matches doc s e) \<longrightarrow>
        getElement doc display (VString s) con =
          (Inl (Thrown (''Element not found:'' @ s)), con @ [''Element not found:'' @ s]))
   \<and> ((\<forall>t. sel \<noteq> VString t) \<and> instanceof_Element sel \<longrightarrow>
        getElement doc display sel con = (Inr sel, con))
   \<and> ((\<forall>t. sel \<noteq> VString t) \<and> \<not> instanceof_Element sel \<longrightarrow>
        getElement doc display sel con =
          (Inl (Thrown (''Element not found:'' @ display sel)),
           con @ [''Element not found:'' @ display sel]))
   \<and> (getElement doc display sel con = (Inr r, con') \<longrightarrow> instanceof_Element r \<and> con' = con)"
proof -
  have found: "getElement doc display (VString s) con = (Inr (VElement (elements doc ! i)), con)"
    if "parses doc s" "i < length (elements doc)" "matches doc s (elements doc ! i)"
       "\<forall>j<i. \<not> matches doc s (elements doc ! j)"
  proof -
    from that have "find (matches doc s) (elements doc) = Some (elements doc ! i)"
      by (auto simp add: find_Some_iff)
    with that show ?thesis by (simp add: getElement_def querySelector_def assert_def)
  qed
  have nomatch: "getElement doc display (VString s) con =
          (Inl (Thrown (''Element not found:'' @ s)), con @ [''Element not found:'' @ s])"
    if "parses doc s" "\<forall>e \<in> set (elements doc). \<not> matches doc s e"
  proof -
    from that have "find (matches doc s) (elements doc) = None"
      by (simp add: find_None_iff)
    with that show ?thesis by (simp add: getElement_def querySelector_def assert_def)
  qed
  have handle: "(\<forall>t. sel \<noteq> VString t) \<and> instanceof_Element sel \<longrightarrow>
        getElement doc display sel con = (Inr sel, con)"
    by (cases sel) (simp_all add: getElement_def assert_def)
  have other: "(\<forall>t. sel \<noteq> VString t) \<and> \<not> instanceof_Element sel \<longrightarrow>
        getElement doc display sel con =
          (Inl (Thrown (''Element not found:'' @ display sel)),
           con @ [''Element not found:'' @ display sel])"
    by (cases sel) (simp_all add: getElement_def assert_def)
  have valid: "getElement doc display sel con = (Inr r, con') \<longrightarrow> instanceof_Element r \<and> con' = con"
    by (auto simp add: getElement_def assert_def querySelector_def
          split: jsval.splits sum.splits if_splits option.splits)
  from found nomatch handle other valid show ?thesis by blast
qed

theorem getElement_resolves_witness:
  "getElement \<lparr>elements = [3, 4, 5], parses = (\<lambda>s. s \<noteq> ''#''), matches = (\<lambda>s e. s = ''div'' \<and> 4 \<le> e)\<rparr>
     (\<lambda>_. ''null'') (VString ''div'') [] = (Inr (VElement 4), [])
   \<and> getElement \<lparr>elements = [3, 4, 5], parses = (\<lambda>s. s \<noteq> ''#''), matches = (\<lambda>s e. s = ''div'' \<and> 4 \<le> e)\<rparr>
     (\<lambda>_. ''null'') (VString ''p'') [] =
       (Inl (Thrown ''Element not found:p''), [''Element not found:p''])
   \<and> getElement \<lparr>elements = [3, 4, 5], parses = (\<lambda>s. s \<noteq> ''#''), matches = (\<lambda>s e. s = ''div'' \<and> 4 \<le> e)\<rparr>
     (\<lambda>_. ''null'') (VElement 9) [] = (Inr (VElement 9), [])
   \<and> getElement \<lparr>elements = [3, 4, 5], parses = (\<lambda>s. s \<noteq> ''#''), matches = (\<lambda>s e. s = ''div'' \<and> 4 \<le> e)\<rparr>
     (\<lambda>_. ''null'') VNull [] =
       (Inl (Thrown ''Element not found:null''), [''Element not found:null''])"
  using getElement_resolves
     [of "\<lparr>elements = [3, 4, 5], parses = (\<lambda>s. s \<noteq> ''#''), matches = (\<lambda>s e. s = ''div'' \<and> 4 \<le> e)\<rparr>"
         "''div''" 1 "\<lambda>_. ''null''" "[]" "VElement 9" "VElement 9" "[]"]
    getElement_resolves
     [of "\<lparr>elements = [3, 4, 5], parses = (\<lambda>s. s \<noteq> ''#''), matches = (\<lambda>s e. s = ''div'' \<and> 4 \<le> e)\<rparr>"
         "''p''" 0 "\<lambda>_. ''null''" "[]" "VNull" "VNull" "[]"]
  by simp

section \<open>Properties of \<^verbatim>\<open>setOptions\<close>\<close>

subsection \<open>One round of the loop\<close>

lemma setOption_missing:
  "obj w key = None \<Longrightarrow>
   setOption key v w =
     (Inl (Thrown (''Property '' @ key @ '' is not defined'')),
      w\<lparr>console := console w @ [''Property '' @ key @ '' is not defined'']\<rparr>)"
  by (simp add: setOption_def assert_def)

lemma setOption_event:
  "obj w key = Some (VEvent ev) \<Longrightarrow>
   setOption key v w = (Inr (), w\<lparr>events := (events w)(ev := events w ev @ [v])\<rparr>)"
  by (simp add: setOption_def assert_def addEventListener_def)

lemma setOption_assign:
  "obj w key = Some u \<Longrightarrow> \<not> instanceof_Event u \<Longrightarrow> key \<notin> readonly w \<Longrightarrow>
   setOption key v w = (Inr (), w\<lparr>obj := (obj w)(key \<mapsto> v)\<rparr>)"
  by (cases u) (simp_all add: setOption_def assert_def)

lemma setOption_refused:
  "obj w key = Some u \<Longrightarrow> \<not> instanceof_Event u \<Longrightarrow> key \<in> readonly w \<Longrightarrow>
   setOption key v w = (Inl TypeError, w)"
  by (cases u) (simp_all add: setOption_def assert_def)

lemma setOption_cases:
  obtains (missing) "obj w key = None"
  | (event) ev where "obj w key = Some (VEvent ev)"
  | (plain) u where "obj w key = Some u" "\<not> instanceof_Event u" "key \<notin> readonly w"
  | (refused) u where "obj w key = Some u" "\<not> instanceof_Event u" "key \<in> readonly w"
proof (cases "obj w key")
  case None
  then show ?thesis by (rule missing)
next
  case (Some u)
  then show ?thesis by (cases u; cases "key \<in> readonly w") (auto intro: event plain refused)
qed

lemma setOption_ok_iff: "fst (setOption key v w) = Inr () \<longleftrightarrow> settable w key"
  by (cases rule: setOption_cases [of w key])
     (simp_all add: setOption_missing setOption_event setOption_assign setOption_refused
        settable_def)

lemma setOption_members:
  "(obj (snd (setOption key v w)) k = None) = (obj w k = None)"
  by (cases rule: setOption_cases [of w key])
     (simp_all add: setOption_missing setOption_event setOption_assign setOption_refused)

lemma setOption_readonly: "readonly (snd (setOption key v w)) = readonly w"
  by (cases rule: setOption_cases [of w key])
     (simp_all add: setOption_missing setOption_event setOption_assign setOption_refused)

lemma setOption_other:
  "k \<noteq> key \<Longrightarrow> obj (snd (setOption key v w)) k = obj w k"
  by (cases rule: setOption_cases [of w key])
     (simp_all add: setOption_missing setOption_event setOption_assign setOption_refused)

lemma setOption_settable:
  assumes "settable w key"
  shows "settable (snd (setOption key v w)) k = settable w k"
proof (cases "k = key")
  case False
  then show ?thesis
    by (simp add: settable_def setOption_other setOption_readonly)
next
  case True
  from assms show ?thesis
    by (cases rule: setOption_cases [of w key])
       (simp_all add: True setOption_event setOption_assign settable_def)
qed

subsection \<open>The loop\<close>

lemma setOptions_loop_step:
  "settable w key \<Longrightarrow>
   setOptions_loop ((key, v) # rest) w = setOptions_loop rest (snd (setOption key v w))"
  using setOption_ok_iff [of key v w]
  by (cases "setOption key v w") (auto split: sum.splits)

lemma setOptions_loop_append:
  "\<forall>k \<in> fst ` set pre. settable w k \<Longrightarrow>
   fst (setOptions_loop pre w) = Inr () \<and>
   setOptions_loop (pre @ rest) w = setOptions_loop rest (snd (setOptions_loop pre w)) \<and>
   (\<forall>k. (obj (snd (setOptions_loop pre w)) k = None) = (obj w k = None))"
proof (induction pre arbitrary: w)
  case Nil
  then show ?case by simp
next
  case (Cons kv pre)
  obtain key v where kv: "kv = (key, v)" by (cases kv)
  from Cons.prems kv have mem: "settable w key" by simp
  let ?w = "snd (setOption key v w)"
  from Cons.prems kv have "\<forall>k \<in> fst ` set pre. settable ?w k"
    by (simp add: setOption_settable [OF mem])
  from Cons.IH [OF this] show ?case
    using kv
    by (simp add: setOptions_loop_step [OF mem] setOption_members del: setOptions_loop.simps)
qed

lemma setOptions_loop_fails:
  assumes "\<forall>k \<in> fst ` set pre. settable w k" and "obj w key = None"
  shows "setOptions_loop (pre @ (key, v) # post) w =
           (Inl (Thrown (''Property '' @ key @ '' is not defined'')),
            (snd (setOptions_loop pre w))
              \<lparr>console := console (snd (setOptions_loop pre w))
                            @ [''Property '' @ key @ '' is not defined'']\<rparr>)"
proof -
  let ?w = "snd (setOptions_loop pre w)"
  from setOptions_loop_append [OF assms(1)] assms(2)
  have "obj ?w key = None"
    and "setOptions_loop (pre @ (key, v) # post) w = setOptions_loop ((key, v) # post) ?w"
    by simp_all
  then show ?thesis by (simp add: setOption_missing)
qed

lemma setOptions_loop_console:
  "\<forall>k \<in> fst ` set kvs. settable w k \<Longrightarrow> console (snd (setOptions_loop kvs w)) = console w"
proof (induction kvs arbitrary: w)
  case Nil
  then show ?case by simp
next
  case (Cons kv kvs)
  obtain key v where kv: "kv = (key, v)" by (cases kv)
  from Cons.prems kv have mem: "settable w key" by simp
  let ?w = "snd (setOption key v w)"
  from Cons.prems kv have "\<forall>k \<in> fst ` set kvs. settable ?w k"
    by (simp add: setOption_settable [OF mem])
  from Cons.IH [OF this] have "console (snd (setOptions_loop kvs ?w)) = console ?w" .
  moreover have "console ?w = console w"
    using mem by (cases rule: setOption_cases [of w key])
      (simp_all add: setOption_event setOption_assign settable_def)
  ultimately show ?case using kv
    by (simp add: setOptions_loop_step [OF mem] del: setOptions_loop.simps)
qed

lemma setOptions_loop_obj:
  assumes "\<forall>k \<in> fst ` set kvs. settable w k" and "distinct (map fst kvs)"
  shows "obj (snd (setOptions_loop kvs w)) k =
           (case map_of kvs k of
              None \<Rightarrow> obj w k
            | Some v \<Rightarrow> if instanceof_Event (the (obj w k)) then obj w k else Some v)"
  using assms
proof (induction kvs arbitrary: w)
  case Nil
  then show ?case by simp
next
  case (Cons kv kvs)
  obtain key v where kv: "kv = (key, v)" by (cases kv)
  from Cons.prems kv have mem: "settable w key" by simp
  let ?w = "snd (setOption key v w)"
  from Cons.prems kv have notin: "key \<notin> fst ` set kvs" and dist: "distinct (map fst kvs)"
    by simp_all
  from Cons.prems kv have "\<forall>k \<in> fst ` set kvs. settable ?w k"
    by (simp add: setOption_settable [OF mem])
  from Cons.IH [OF this dist]
  have IH: "obj (snd (setOptions_loop kvs ?w)) k =
           (case map_of kvs k of
              None \<Rightarrow> obj ?w k
            | Some v \<Rightarrow> if instanceof_Event (the (obj ?w k)) then obj ?w k else Some v)" .
  show ?case
  proof (cases "k = key")
    case True
    with notin have "map_of kvs k = None" by (simp add: map_of_eq_None_iff)
    moreover have "obj ?w key = (if instanceof_Event (the (obj w key)) then obj w key else Some v)"
      using mem by (cases rule: setOption_cases [of w key])
        (simp_all add: setOption_event setOption_assign settable_def)
    ultimately show ?thesis using IH True kv
      by (simp add: setOptions_loop_step [OF mem] del: setOptions_loop.simps)
  next
    case False
    then have eq: "obj ?w k = obj w k" by (rule setOption_other)
    show ?thesis using IH False kv unfolding eq
      by (simp add: setOptions_loop_step [OF mem] del: setOptions_loop.simps)
  qed
qed

lemma setOptions_loop_events:
  assumes "\<forall>k \<in> fst ` set kvs. settable w k" and "distinct (map fst kvs)"
  shows "events (snd (setOptions_loop kvs w)) ev =
           events w ev @ map snd (filter (\<lambda>kv. obj w (fst kv) = Some (VEvent ev)) kvs)"
  using assms
proof (induction kvs arbitrary: w)
  case Nil
  then show ?case by simp
next
  case (Cons kv kvs)
  obtain key v where kv: "kv = (key, v)" by (cases kv)
  from Cons.prems kv have mem: "settable w key" by simp
  let ?w = "snd (setOption key v w)"
  from Cons.prems kv have notin: "key \<notin> fst ` set kvs" and dist: "distinct (map fst kvs)"
    by simp_all
  from Cons.prems kv have "\<forall>k \<in> fst ` set kvs. settable ?w k"
    by (simp add: setOption_settable [OF mem])
  from Cons.IH [OF this dist]
  have IH: "events (snd (setOptions_loop kvs ?w)) ev =
           events ?w ev @ map snd (filter (\<lambda>kv. obj ?w (fst kv) = Some (VEvent ev)) kvs)" .
  have same: "filter (\<lambda>kv. obj ?w (fst kv) = Some (VEvent ev)) kvs =
              filter (\<lambda>kv. obj w (fst kv) = Some (VEvent ev)) kvs"
  proof (rule filter_cong [OF refl])
    fix e assume "e \<in> set kvs"
    with notin have "fst e \<noteq> key" by auto
    then show "(obj ?w (fst e) = Some (VEvent ev)) = (obj w (fst e) = Some (VEvent ev))"
      by (simp add: setOption_other)
  qed
  have head: "events ?w ev =
              events w ev @ (if obj w key = Some (VEvent ev) then [v] else [])"
    using mem by (cases rule: setOption_cases [of w key])
      (auto simp add: setOption_event setOption_assign settable_def)
  show ?case using IH same head kv
    by (simp add: setOptions_loop_step [OF mem] del: setOptions_loop.simps)
qed






text \<open>
  Claim C9. With \<^verbatim>\<open>null\<close> or \<^verbatim>\<open>undefined\<close> for \<^verbatim>\<open>options\<close>, \<^verbatim>\<open>setOptions\<close>
  returns without throwing and changes nothing: no member of \<^verbatim>\<open>obj\<close>, no handler,
  nothing on the console.
\<close>

theorem setOptions_without_options:
  "setOptions w OptNull = (Inr (), w) \<and> setOptions w OptUndefined = (Inr (), w)"
  by (simp add: setOptions_def)

text \<open>
  Claim C10. \<^verbatim>\<open>setOptions\<close> is not atomic. When the key \<^verbatim>\<open>key\<close> is the first of
  \<^verbatim>\<open>options\<close> that is not a member of \<^verbatim>\<open>obj\<close>, and the keys before it are members that
  are an \<^verbatim>\<open>Event\<close> or can be assigned, the call throws and leaves the state that the
  keys before \<^verbatim>\<open>key\<close> produce, with the message added to the console: each of these
  keys has its value assigned, or registered as a handler, and nothing is restored.
\<close>

theorem setOptions_not_atomic:
  assumes "\<forall>k \<in> fst ` set pre. obj w k \<noteq> None"
    and "\<forall>k \<in> fst ` set pre. k \<in> readonly w \<longrightarrow> instanceof_Event (the (obj w k))"
    and "obj w key = None"
  shows "fst (setOptions w (OptObject pre)) = Inr ()
   \<and> setOptions w (OptObject (pre @ (key, v) # post)) =
       (Inl (Thrown (''Property '' @ key @ '' is not defined'')),
        (snd (setOptions w (OptObject pre)))
          \<lparr>console := console w @ [''Property '' @ key @ '' is not defined'']\<rparr>)
   \<and> (distinct (map fst pre) \<longrightarrow>
        (\<forall>(k, a) \<in> set pre.
           (\<not> instanceof_Event (the (obj w k)) \<longrightarrow>
              obj (snd (setOptions w (OptObject (pre @ (key, v) # post)))) k = Some a)
           \<and> (\<forall>e. obj w k = Some (VEvent e) \<longrightarrow>
                 a \<in> set (events (snd (setOptions w (OptObject (pre @ (key, v) # post)))) e))))"
proof -
  let ?w = "snd (setOptions_loop pre w)"
  let ?msg = "''Property '' @ key @ '' is not defined''"
  from assms(1,2) have mem: "\<forall>k \<in> fst ` set pre. settable w k"
    by (simp add: settable_def)
  have ok: "fst (setOptions_loop pre w) = Inr ()"
    using setOptions_loop_append [OF mem, of "[]"] by simp
  have con: "console ?w = console w"
    by (rule setOptions_loop_console [OF mem])
  have fails: "setOptions_loop (pre @ (key, v) # post) w =
      (Inl (Thrown ?msg), ?w\<lparr>console := console w @ [?msg]\<rparr>)"
    using setOptions_loop_fails [OF mem assms(3), of v post] con by simp
  have applied: "(\<not> instanceof_Event (the (obj w k)) \<longrightarrow> obj ?w k = Some a)
           \<and> (\<forall>e. obj w k = Some (VEvent e) \<longrightarrow> a \<in> set (events ?w e))"
    if dist: "distinct (map fst pre)" and el: "(k, a) \<in> set pre" for k a
  proof -
    from dist el have "map_of pre k = Some a" by simp
    then have "\<not> instanceof_Event (the (obj w k)) \<longrightarrow> obj ?w k = Some a"
      by (simp add: setOptions_loop_obj [OF mem dist])
    moreover have "\<forall>e. obj w k = Some (VEvent e) \<longrightarrow> a \<in> set (events ?w e)"
      using el by (force simp add: setOptions_loop_events [OF mem dist])
    ultimately show ?thesis by simp
  qed
  show ?thesis using ok fails applied
    by (auto simp add: setOptions_def)
qed

theorem setOptions_not_atomic_witness:
  "setOptions \<lparr>obj = [''speed'' \<mapsto> VNumber (Num 1)], readonly = {}, events = (\<lambda>_. []),
               console = []\<rparr>
     (OptObject [(''speed'', VNumber (Num 5)), (''missingProp'', VNumber (Num 1))])
   = (Inl (Thrown ''Property missingProp is not defined''),
      \<lparr>obj = [''speed'' \<mapsto> VNumber (Num 5)], readonly = {}, events = (\<lambda>_. []),
       console = [''Property missingProp is not defined'']\<rparr>)
   \<and> obj (snd (setOptions \<lparr>obj = [''speed'' \<mapsto> VNumber (Num 1)], readonly = {},
                           events = (\<lambda>_. []), console = []\<rparr>
     (OptObject [(''speed'', VNumber (Num 5)), (''missingProp'', VNumber (Num 1))]))) ''speed''
     \<noteq> obj \<lparr>obj = [''speed'' \<mapsto> VNumber (Num 1)], readonly = {}, events = (\<lambda>_. []),
            console = []\<rparr> ''speed''"
proof -
  let ?w = "\<lparr>obj = [''speed'' \<mapsto> VNumber (Num 1)], readonly = {}, events = (\<lambda>_. []),
            console = []\<rparr>"
  have mem: "\<forall>k \<in> fst ` set [(''speed'', VNumber (Num 5))]. obj ?w k \<noteq> None" by simp
  have writable: "\<forall>k \<in> fst ` set [(''speed'', VNumber (Num 5))].
      k \<in> readonly ?w \<longrightarrow> instanceof_Event (the (obj ?w k))" by simp
  have miss: "obj ?w ''missingProp'' = None" by simp
  have pre: "snd (setOptions ?w (OptObject [(''speed'', VNumber (Num 5))])) =
     \<lparr>obj = [''speed'' \<mapsto> VNumber (Num 5)], readonly = {}, events = (\<lambda>_. []), console = []\<rparr>"
    by (simp add: setOptions_def setOption_def assert_def)
  show ?thesis
    using setOptions_not_atomic [OF mem writable miss, of "VNumber (Num 1)" "[]"] pre by simp
qed

section \<open>Properties of \<^verbatim>\<open>format\<close>\<close>





























end
